theory Spec2Isabelle
  imports Main "HOL-Library.Sublist"
begin

section \<open>The request router of the puzzle validator\<close>

text \<open>
  The router (the default export that registers the six routes on the Express
  application) is embedded as one HOL function per route handler. The handlers talk to
  three collaborators whose code is not part of the router: the document store
  (\<open>env.mongo.puzzle\<close>, \<open>env.mongo.auth\<close>), the OAuth module (\<open>oauth\<close>) and the
  JavaScript runtime (\<open>JSON.stringify\<close>, \<open>new Date()\<close>). They are parameters of
  the model: every adapter operation is a function on an abstract external state
  \<open>'w\<close> that returns either a rejection or a value, together with the next external
  state. Every adapter call a handler makes is recorded, in order, in a call log, so that
  "the store was (not) asked to do X" is a statement about that log.
\<close>

subsection \<open>JavaScript values the handlers compute with\<close>

text \<open>
  A JavaScript string is a list of code units; the model has the code units 0..255
  (\<open>char\<close>). A value that may be \<open>undefined\<close> (an absent query parameter, an unset
  session field) is an \<open>option\<close>.

  \<open>parseInt\<close> yields a Number: \<open>NaN\<close>, or the Number for the mathematical integer
  that the digits denote. \<open>Num n\<close> stands for that Number (for \<open>\<bar>n\<bar>\<close> above \<open>2^53\<close>
  the runtime rounds it to the nearest double; the sign of zero is not kept).
\<close>

datatype jsnum = NaN | Num int

text \<open>An exception value: an \<open>Error\<close> object with its \<open>message\<close>.\<close>

datatype exn = Error string

fun message :: "exn \<Rightarrow> string" where
  "message (Error m) = m"

text \<open>\<open>ToString\<close> on a value that is a string or \<open>undefined\<close>.\<close>

fun ToString :: "string option \<Rightarrow> string" where
  "ToString None = ''undefined''"
| "ToString (Some s) = s"

text \<open>
  White space that \<open>parseInt\<close> skips, among the code units of the model: TAB, LF, VT,
  FF, CR, SP and NBSP.
\<close>

definition isWhiteSpace :: "char \<Rightarrow> bool" where
  "isWhiteSpace c = (of_char c \<in> {9, 10, 11, 12, 13, 32, 160 :: nat})"

text \<open>The value of a digit character, for radices up to 36.\<close>

definition digitVal :: "char \<Rightarrow> nat option" where
  "digitVal c =
     (let k = (of_char c :: nat) in
      if 48 \<le> k \<and> k \<le> 57 then Some (k - 48)
      else if 97 \<le> k \<and> k \<le> 122 then Some (k - 87)
      else if 65 \<le> k \<and> k \<le> 90 then Some (k - 55)
      else None)"

definition isRadixDigit :: "nat \<Rightarrow> char \<Rightarrow> bool" where
  "isRadixDigit R c = (case digitVal c of None \<Rightarrow> False | Some d \<Rightarrow> d < R)"

text \<open>The mathematical integer that a run of radix-\<open>R\<close> digits denotes.\<close>

definition mathInt :: "nat \<Rightarrow> string \<Rightarrow> nat" where
  "mathInt R Z = foldl (\<lambda>acc c. acc * R + (case digitVal c of None \<Rightarrow> 0 | Some d \<Rightarrow> d)) 0 Z"

text \<open>
  \<open>parseInt(string)\<close> with no radix argument: skip leading white space, read an optional
  sign, switch to radix 16 after a \<open>0x\<close>/\<open>0X\<close> prefix and to radix 10 otherwise, take
  the longest run of digits, and answer \<open>NaN\<close> when that run is empty. Whatever follows
  the digits is ignored.
\<close>

definition parseInt :: "string option \<Rightarrow> jsnum" where
  "parseInt v =
     (let S = dropWhile isWhiteSpace (ToString v);
          sign = (if S \<noteq> [] \<and> hd S = CHR ''-'' then - 1 else 1 :: int);
          S1 = (if S \<noteq> [] \<and> (hd S = CHR ''+'' \<or> hd S = CHR ''-'') then tl S else S);
          hex = (2 \<le> length S1 \<and> (take 2 S1 = ''0x'' \<or> take 2 S1 = ''0X''));
          R = (if hex then 16 else 10 :: nat);
          S2 = (if hex then drop 2 S1 else S1);
          Z = takeWhile (isRadixDigit R) S2
      in if Z = [] then NaN else Num (sign * int (mathInt R Z)))"

subsection \<open>Data of the router\<close>

text \<open>
  The session object of a request: its \<open>authId\<close> field is \<open>undefined\<close> until a login
  sets it. \<open>req.session\<close> itself may be \<open>undefined\<close>.
\<close>

record Session =
  authId :: "string option"

text \<open>
  What a handler reads from the request: the \<open>:id\<close> path parameter, the query
  parameters and the session.
\<close>

record Request =
  params_id :: string
  query_score :: "string option"
  query_comment :: "string option"
  query_rating :: "string option"
  query_code :: "string option"
  session :: "Session option"

text \<open>The review object literal of the review route; \<open>at\<close> is the clock reading of \<open>new Date()\<close>.\<close>

record Review =
  "by" :: string
  at :: nat
  score :: jsnum
  comment :: "string option"
  rating :: jsnum

text \<open>The object \<open>{ username, puzzle }\<close>; the puzzle type \<open>'p\<close> is opaque to the router.\<close>

record 'p ServerData =
  username :: string
  puzzle :: 'p

text \<open>The access token object of the OAuth module (with its \<open>token\<close> field) and the user info.\<close>

record AccessToken =
  token :: string

record UserInfo =
  user_username :: string

text \<open>
  The response: \<open>res.status(n).end()\<close> is \<open>End\<close> with status \<open>n\<close>, \<open>res.send(s)\<close> is
  \<open>Send s\<close> with the default status 200, \<open>res.status(n).json(v)\<close> sends the JSON text of
  \<open>v\<close>, and \<open>res.redirect(u)\<close> is \<open>Redirect u\<close> with status 302.
\<close>

datatype Body = End | Send string | Redirect string

record Response =
  status :: nat
  body :: Body

definition status_end :: "nat \<Rightarrow> Response" where
  "status_end n = \<lparr>status = n, body = End\<rparr>"

definition send :: "string \<Rightarrow> Response" where
  "send s = \<lparr>status = 200, body = Send s\<rparr>"

definition redirect :: "string \<Rightarrow> Response" where
  "redirect u = \<lparr>status = 302, body = Redirect u\<rparr>"

text \<open>\<open>res.status(n).json(s)\<close> for a string \<open>s\<close> that needs no escaping: the text in double quotes.\<close>

definition status_json :: "nat \<Rightarrow> string \<Rightarrow> Response" where
  "status_json n s = \<lparr>status = n, body = Send ([CHR 0x22] @ s @ [CHR 0x22])\<rparr>"

subsection \<open>The collaborators, as parameters\<close>

text \<open>
  \<open>env.mongo\<close>: \<open>puzzle.get\<close>, \<open>puzzle.next\<close>, \<open>puzzle.review\<close>, \<open>auth.username\<close> and
  \<open>auth.save\<close>. Each awaited call either rejects (\<open>Inl\<close>) or resolves (\<open>Inr\<close>), and
  may change the external state.
\<close>

record ('w, 'p) Env =
  puzzle_get :: "jsnum \<Rightarrow> 'w \<Rightarrow> (exn + 'p option) \<times> 'w"
  puzzle_next :: "'w \<Rightarrow> (exn + 'p option) \<times> 'w"
  puzzle_review :: "'p \<Rightarrow> Review \<Rightarrow> 'w \<Rightarrow> (exn + unit) \<times> 'w"
  auth_username :: "string \<Rightarrow> 'w \<Rightarrow> (exn + string option) \<times> 'w"
  auth_save :: "string \<Rightarrow> string \<Rightarrow> 'w \<Rightarrow> (exn + string) \<times> 'w"

text \<open>The \<open>oauth\<close> module: \<open>authorizationUri\<close>, \<open>getToken\<close> and \<open>getUserInfo\<close>.\<close>

record 'w OAuth =
  authorizationUri :: string
  getToken :: "string option \<Rightarrow> 'w \<Rightarrow> (exn + AccessToken) \<times> 'w"
  getUserInfo :: "AccessToken \<Rightarrow> 'w \<Rightarrow> (exn + UserInfo) \<times> 'w"

text \<open>The adapter calls a handler can make, with their arguments.\<close>

datatype 'p Call =
    PuzzleGet jsnum
  | PuzzleNext
  | PuzzleReview 'p Review
  | AuthUsername string
  | AuthSave string string
  | GetToken "string option"
  | GetUserInfo AccessToken

text \<open>
  The state a handler runs in: the external state, the log of the adapter calls made so
  far, and the lines written to the server console.
\<close>

record ('w, 'p) Sys =
  ext :: 'w
  calls :: "'p Call list"
  console :: "string list"

definition perform :: "'p Call \<Rightarrow> ('w \<Rightarrow> 'a \<times> 'w) \<Rightarrow> ('w, 'p) Sys \<Rightarrow> 'a \<times> ('w, 'p) Sys" where
  "perform c f s =
     (case f (ext s) of (r, w') \<Rightarrow> (r, s\<lparr>ext := w', calls := calls s @ [c]\<rparr>))"

definition console_write :: "string \<Rightarrow> ('w, 'p) Sys \<Rightarrow> ('w, 'p) Sys" where
  "console_write l s = s\<lparr>console := console s @ [l]\<rparr>"

subsection \<open>The handlers\<close>

text \<open>The page template.\<close>

definition htmlPage :: "string \<Rightarrow> string" where
  \<open>htmlPage content =
     ''\<newline><html>\<newline>  <head>\<newline>    <title>Lichess Puzzle Validator</title>\<newline>    <link href="/style.css" rel="stylesheet">\<newline>  </head>\<newline>  <body>\<newline>    ''
     @ content @ ''\<newline>  </body>\<newline></html>''\<close>

definition loginPrompt :: string where
  \<open>loginPrompt = ''<a href="/auth">Login with Lichess to continue</a>''\<close>

definition puzzleContent :: "string \<Rightarrow> string" where
  \<open>puzzleContent json =
     ''\<newline>    <main></main>\<newline>    <script src="/dist/puzzle-validator.dev.js"></script>\<newline>    <script>PuzzleValidator.start(''
     @ json @ '')</script>\<newline>''\<close>

text \<open>\<open>session?.authId || ''\<close>\<close>

definition session_authId :: "Session option \<Rightarrow> string" where
  "session_authId so =
     (case so of None \<Rightarrow> [] | Some se \<Rightarrow> (case authId se of None \<Rightarrow> [] | Some a \<Rightarrow> a))"

text \<open>\<open>!username\<close>: \<open>null\<close>, \<open>undefined\<close> and the empty string are falsy.\<close>

fun falsy :: "string option \<Rightarrow> bool" where
  "falsy None = True"
| "falsy (Some u) = (u = [])"

text \<open>
  \<open>renderPuzzle\<close>. \<open>stringify\<close> is \<open>JSON.stringify\<close> on the boot payload. A rejected
  adapter call leaves the request without a response (\<open>Inl\<close>).
\<close>

definition renderPuzzle ::
  "('w, 'p) Env \<Rightarrow> ('p ServerData \<Rightarrow> string) \<Rightarrow> Session option \<Rightarrow> 'p option \<Rightarrow>
     ('w, 'p) Sys \<Rightarrow> (exn + Response) \<times> ('w, 'p) Sys" where
  "renderPuzzle env stringify sess pz s =
     (case pz of
        None \<Rightarrow> (Inr (status_end 404), s)
      | Some p \<Rightarrow>
         (let a = session_authId sess in
          case perform (AuthUsername a) (auth_username env a) s of
            (Inl e, s1) \<Rightarrow> (Inl e, s1)
          | (Inr un, s1) \<Rightarrow>
              if falsy un then (Inr (send (htmlPage loginPrompt)), s1)
              else (Inr (send (htmlPage (puzzleContent
                      (stringify \<lparr>username = the un, puzzle = p\<rparr>)))), s1)))"

text \<open>\<open>app.get('/')\<close>\<close>

definition get_root ::
  "('w, 'p) Env \<Rightarrow> ('p ServerData \<Rightarrow> string) \<Rightarrow> Request \<Rightarrow>
     ('w, 'p) Sys \<Rightarrow> (exn + Response) \<times> ('w, 'p) Sys" where
  "get_root env stringify req s =
     (case perform PuzzleNext (puzzle_next env) s of
        (Inl e, s1) \<Rightarrow> (Inl e, s1)
      | (Inr pz, s1) \<Rightarrow> renderPuzzle env stringify (session req) pz s1)"

text \<open>\<open>app.get('/puzzle/:id')\<close>\<close>

definition get_puzzle ::
  "('w, 'p) Env \<Rightarrow> ('p ServerData \<Rightarrow> string) \<Rightarrow> Request \<Rightarrow>
     ('w, 'p) Sys \<Rightarrow> (exn + Response) \<times> ('w, 'p) Sys" where
  "get_puzzle env stringify req s =
     (let n = parseInt (Some (params_id req)) in
      case perform (PuzzleGet n) (puzzle_get env n) s of
        (Inl e, s1) \<Rightarrow> (Inl e, s1)
      | (Inr pz, s1) \<Rightarrow> renderPuzzle env stringify (session req) pz s1)"

text \<open>
  The review object that \<open>app.post('/review/:id')\<close> builds for the username it
  resolved; \<open>now\<close> is what \<open>new Date()\<close> reads.
\<close>

definition review_of :: "string \<Rightarrow> nat \<Rightarrow> Request \<Rightarrow> Review" where
  "review_of u now req =
     \<lparr>by = u, at = now,
      score = parseInt (query_score req),
      comment = query_comment req,
      rating = parseInt (query_rating req)\<rparr>"

text \<open>\<open>app.post('/review/:id')\<close>\<close>

definition post_review ::
  "('w, 'p) Env \<Rightarrow> ('p ServerData \<Rightarrow> string) \<Rightarrow> nat \<Rightarrow> Request \<Rightarrow>
     ('w, 'p) Sys \<Rightarrow> (exn + Response) \<times> ('w, 'p) Sys" where
  "post_review env stringify now req s =
     (let n = parseInt (Some (params_id req)) in
      case perform (PuzzleGet n) (puzzle_get env n) s of
        (Inl e, s1) \<Rightarrow> (Inl e, s1)
      | (Inr None, s1) \<Rightarrow> (Inr (status_end 404), s1)
      | (Inr (Some p), s1) \<Rightarrow>
         (let a = session_authId (session req) in
          case perform (AuthUsername a) (auth_username env a) s1 of
            (Inl e, s2) \<Rightarrow> (Inl e, s2)
          | (Inr un, s2) \<Rightarrow>
              if falsy un then (Inr (status_end 403), s2)
              else
               (let r = review_of (the un) now req in
                case perform (PuzzleReview p r) (puzzle_review env p r) s2 of
                  (Inl e, s3) \<Rightarrow> (Inl e, s3)
                | (Inr u, s3) \<Rightarrow>
                   (case perform PuzzleNext (puzzle_next env) s3 of
                      (Inl e, s4) \<Rightarrow> (Inl e, s4)
                    | (Inr None, s4) \<Rightarrow> (Inr (status_end 404), s4)
                    | (Inr (Some nx), s4) \<Rightarrow>
                        (Inr (send (stringify \<lparr>username = the un, puzzle = nx\<rparr>)), s4)))))"

text \<open>
  \<open>app.get('/logout')\<close>: the assignment to \<open>req.session!.authId\<close> throws a TypeError when
  there is no session object. The handler returns the response and the session.
\<close>

definition get_logout :: "Request \<Rightarrow> (exn + Response) \<times> Session option" where
  "get_logout req =
     (case session req of
        None \<Rightarrow> (Inl (Error ''TypeError''), None)
      | Some se \<Rightarrow> (Inr (redirect ''/''), Some (se\<lparr>authId := Some []\<rparr>)))"

text \<open>\<open>app.get('/auth')\<close>\<close>

definition get_auth :: "'w OAuth \<Rightarrow> ('w, 'p) Sys \<Rightarrow> Response \<times> ('w, 'p) Sys" where
  "get_auth oauth s = (redirect (authorizationUri oauth), console_write (authorizationUri oauth) s)"

text \<open>
  \<open>app.get('/oauth-callback')\<close>: the body of the \<open>try\<close> block, then the handler with
  its \<open>catch\<close>. The \<open>try\<close> block yields the session as it stands when the block is left.
\<close>

definition oauth_try ::
  "('w, 'p) Env \<Rightarrow> 'w OAuth \<Rightarrow> Request \<Rightarrow> ('w, 'p) Sys \<Rightarrow>
     (exn + Response) \<times> Session option \<times> ('w, 'p) Sys" where
  "oauth_try env oauth req s =
     (case perform (GetToken (query_code req)) (getToken oauth (query_code req)) s of
        (Inl e, s1) \<Rightarrow> (Inl e, session req, s1)
      | (Inr tk, s1) \<Rightarrow>
         (case perform (GetUserInfo tk) (getUserInfo oauth tk) s1 of
            (Inl e, s2) \<Rightarrow> (Inl e, session req, s2)
          | (Inr user, s2) \<Rightarrow>
             (case perform (AuthSave (token tk) (user_username user))
                     (auth_save env (token tk) (user_username user)) s2 of
                (Inl e, s3) \<Rightarrow> (Inl e, session req, s3)
              | (Inr aid, s3) \<Rightarrow>
                 (case session req of
                    None \<Rightarrow> (Inl (Error ''TypeError''), None, s3)
                  | Some se \<Rightarrow> (Inr (redirect ''/''), Some (se\<lparr>authId := Some aid\<rparr>), s3)))))"

definition get_oauth_callback ::
  "('w, 'p) Env \<Rightarrow> 'w OAuth \<Rightarrow> Request \<Rightarrow> ('w, 'p) Sys \<Rightarrow>
     Response \<times> Session option \<times> ('w, 'p) Sys" where
  "get_oauth_callback env oauth req s =
     (case oauth_try env oauth req s of
        (Inr resp, se, s1) \<Rightarrow> (resp, se, s1)
      | (Inl error, se, s1) \<Rightarrow>
          (status_json 500 ''Authentication failed'',
           se, console_write (''Access Token Error '' @ message error) s1))"

subsection \<open>Reading the call log\<close>

text \<open>The calls a handler added to the log when it ran from \<open>s\<close> to \<open>s'\<close>.\<close>

definition new_calls :: "('w, 'p) Sys \<Rightarrow> ('w, 'p) Sys \<Rightarrow> 'p Call list" where
  "new_calls s s' = drop (length (calls s)) (calls s')"

fun is_review :: "'p Call \<Rightarrow> bool" where
  "is_review (PuzzleReview p r) = True"
| "is_review c = False"

fun is_get :: "'p Call \<Rightarrow> bool" where
  "is_get (PuzzleGet n) = True"
| "is_get c = False"

subsection \<open>A reference store and provider\<close>

text \<open>
  The adapters are outside the router; the definitions of this subsection are one
  concrete instance of them, used to run the handlers on concrete requests.
\<close>

record Puzzle =
  puzzle_id :: int
  payload :: string

record Store =
  puzzles :: "Puzzle list"
  reviews :: "(int \<times> Review) list"
  credentials :: "(string \<times> string) list"
  grants :: "(string \<times> string \<times> string) list"

text \<open>
  Modelled from the spec: the store's \<open>getById\<close> (\<open>env.mongo.puzzle.get\<close>), absent when
  no puzzle with that id exists; no puzzle has the id \<open>NaN\<close>.
\<close>

definition store_get :: "jsnum \<Rightarrow> Store \<Rightarrow> (exn + Puzzle option) \<times> Store" where
  "store_get n w =
     (Inr (case n of NaN \<Rightarrow> None | Num i \<Rightarrow> find (\<lambda>p. puzzle_id p = i) (puzzles w)), w)"

definition review_count :: "Store \<Rightarrow> Puzzle \<Rightarrow> nat" where
  "review_count w p = length (filter (\<lambda>ir. fst ir = puzzle_id p) (reviews w))"

text \<open>
  Modelled from the spec: the store's \<open>next\<close> (\<open>env.mongo.puzzle.next\<close>) under the
  least-reviewed policy: the first puzzle with the fewest reviews, absent only when no
  puzzles exist at all.
\<close>

fun least_reviewed :: "Store \<Rightarrow> Puzzle list \<Rightarrow> Puzzle option" where
  "least_reviewed w [] = None"
| "least_reviewed w (p # ps) =
     (case least_reviewed w ps of
        None \<Rightarrow> Some p
      | Some q \<Rightarrow> if review_count w p \<le> review_count w q then Some p else Some q)"

definition store_next :: "Store \<Rightarrow> (exn + Puzzle option) \<times> Store" where
  "store_next w = (Inr (least_reviewed w (puzzles w)), w)"

text \<open>
  Modelled from the spec: the store's \<open>next\<close> (\<open>env.mongo.puzzle.next\<close>) under the
  backlog policy: the first puzzle that has no review yet, absent when the backlog is
  exhausted.
\<close>

definition store_next_backlog :: "Store \<Rightarrow> (exn + Puzzle option) \<times> Store" where
  "store_next_backlog w = (Inr (find (\<lambda>p. review_count w p = 0) (puzzles w)), w)"

text \<open>
  Modelled from the spec: the store's \<open>appendReview\<close> (\<open>env.mongo.puzzle.review\<close>): the
  review is attached to the puzzle, after the reviews already there.
\<close>

definition store_review :: "Puzzle \<Rightarrow> Review \<Rightarrow> Store \<Rightarrow> (exn + unit) \<times> Store" where
  "store_review p r w = (Inr (), w\<lparr>reviews := reviews w @ [(puzzle_id p, r)]\<rparr>)"

text \<open>
  Modelled from the spec: the adapter's \<open>resolveUsername\<close> (\<open>env.mongo.auth.username\<close>),
  absent when the authId is empty or unknown.
\<close>

definition store_username :: "string \<Rightarrow> Store \<Rightarrow> (exn + string option) \<times> Store" where
  "store_username a w = (Inr (if a = [] then None else map_of (credentials w) a), w)"

text \<open>
  Modelled from the spec: the persisting step of \<open>completeAuth\<close> (\<open>env.mongo.auth.save\<close>):
  stores the username under a new authId and returns that authId.
\<close>

definition store_save :: "string \<Rightarrow> string \<Rightarrow> Store \<Rightarrow> (exn + string) \<times> Store" where
  "store_save tok un w =
     (let aid = replicate (Suc (length (credentials w))) (CHR ''k'')
      in (Inr aid, w\<lparr>credentials := credentials w @ [(aid, un)]\<rparr>))"

text \<open>
  Modelled from the spec: the provider calls of \<open>completeAuth\<close> (\<open>oauth.getToken\<close>,
  \<open>oauth.getUserInfo\<close>): an authorization code the provider granted yields its token, a
  known token yields its user, anything else fails with the provider's error.
\<close>

definition provider_getToken :: "string option \<Rightarrow> Store \<Rightarrow> (exn + AccessToken) \<times> Store" where
  "provider_getToken code w =
     (case map_of (grants w) (ToString code) of
        None \<Rightarrow> (Inl (Error (''invalid_grant '' @ ToString code)), w)
      | Some tu \<Rightarrow> (Inr \<lparr>token = fst tu\<rparr>, w))"

definition provider_getUserInfo :: "AccessToken \<Rightarrow> Store \<Rightarrow> (exn + UserInfo) \<times> Store" where
  "provider_getUserInfo tk w =
     (case map_of (map snd (grants w)) (token tk) of
        None \<Rightarrow> (Inl (Error (''invalid_token '' @ token tk)), w)
      | Some u \<Rightarrow> (Inr \<lparr>user_username = u\<rparr>, w))"

definition ref_env :: "(Store, Puzzle) Env" where
  "ref_env = \<lparr>puzzle_get = store_get, puzzle_next = store_next, puzzle_review = store_review,
              auth_username = store_username, auth_save = store_save\<rparr>"

definition backlog_env :: "(Store, Puzzle) Env" where
  "backlog_env = ref_env\<lparr>puzzle_next := store_next_backlog\<rparr>"

definition ref_oauth :: "Store OAuth" where
  "ref_oauth = \<lparr>authorizationUri = ''https://oauth.example/authorize'',
                getToken = provider_getToken, getUserInfo = provider_getUserInfo\<rparr>"

text \<open>\<open>JSON.stringify\<close> on the boot payload, for puzzles whose payload is their JSON text.\<close>

definition ref_stringify :: "Puzzle ServerData \<Rightarrow> string" where
  \<open>ref_stringify d = ''{"username":"'' @ username d @ ''","puzzle":'' @ payload (puzzle d) @ ''}''\<close>

text \<open>Concrete data: a store with one puzzle and one logged-in reviewer, and an empty store.\<close>

definition puzzle1 :: Puzzle where
  \<open>puzzle1 = \<lparr>puzzle_id = 1, payload = ''{"id":1}''\<rparr>\<close>

definition puzzle2 :: Puzzle where
  \<open>puzzle2 = \<lparr>puzzle_id = 2, payload = ''{"id":2}''\<rparr>\<close>

definition store1 :: Store where
  "store1 = \<lparr>puzzles = [puzzle1], reviews = [], credentials = [(''k'', ''alice'')],
             grants = [(''code1'', ''tok1'', ''alice'')]\<rparr>"

definition store2 :: Store where
  "store2 = store1\<lparr>puzzles := [puzzle1, puzzle2]\<rparr>"

definition store0 :: Store where
  "store0 = store1\<lparr>puzzles := []\<rparr>"

definition sys_of :: "Store \<Rightarrow> (Store, Puzzle) Sys" where
  "sys_of w = \<lparr>ext = w, calls = [], console = []\<rparr>"

definition request :: "string \<Rightarrow> Session option \<Rightarrow> Request" where
  "request i se = \<lparr>params_id = i, query_score = Some ''5'', query_comment = Some ''ok'',
                   query_rating = Some ''1500'', query_code = None, session = se\<rparr>"

definition alice_session :: "Session option" where
  "alice_session = Some \<lparr>authId = Some ''k''\<rparr>"

section \<open>Properties of the handlers\<close>

subsection \<open>Auxiliary facts\<close>

lemma perform_calls:
  "perform c f s = (r, s') \<Longrightarrow> calls s' = calls s @ [c]"
  by (auto simp: perform_def split: prod.splits)

lemma post_review_calls:
  "\<exists>p r. prefix (new_calls s (snd (post_review env js now req s)))
      [PuzzleGet (parseInt (Some (params_id req))), AuthUsername (session_authId (session req)),
       PuzzleReview p r, PuzzleNext]"
  unfolding post_review_def new_calls_def Let_def
  by (auto split: prod.splits sum.splits option.splits dest!: perform_calls)

lemma post_review_missing:
  "puzzle_get env (parseInt (Some (params_id req))) (ext s) = (Inr None, w1) \<Longrightarrow>
   post_review env js now req s =
     (Inr (status_end 404),
      s\<lparr>ext := w1, calls := calls s @ [PuzzleGet (parseInt (Some (params_id req)))]\<rparr>)"
  by (simp add: post_review_def perform_def)

lemma post_review_unauthenticated:
  "puzzle_get env (parseInt (Some (params_id req))) (ext s) = (Inr (Some p), w1) \<Longrightarrow>
   auth_username env (session_authId (session req)) w1 = (Inr un, w2) \<Longrightarrow> falsy un \<Longrightarrow>
   post_review env js now req s =
     (Inr (status_end 403),
      s\<lparr>ext := w2, calls := calls s @ [PuzzleGet (parseInt (Some (params_id req))),
                                        AuthUsername (session_authId (session req))]\<rparr>)"
  by (simp add: post_review_def perform_def)

lemma post_review_exhausted:
  "puzzle_get env (parseInt (Some (params_id req))) (ext s) = (Inr (Some p), w1) \<Longrightarrow>
   auth_username env (session_authId (session req)) w1 = (Inr (Some u), w2) \<Longrightarrow> u \<noteq> [] \<Longrightarrow>
   puzzle_review env p (review_of u now req) w2 = (Inr (), w3) \<Longrightarrow>
   puzzle_next env w3 = (Inr None, w4) \<Longrightarrow>
   post_review env js now req s =
     (Inr (status_end 404),
      s\<lparr>ext := w4, calls := calls s @ [PuzzleGet (parseInt (Some (params_id req))),
                                        AuthUsername (session_authId (session req)),
                                        PuzzleReview p (review_of u now req), PuzzleNext]\<rparr>)"
  by (simp add: post_review_def perform_def)

lemma post_review_success:
  "puzzle_get env (parseInt (Some (params_id req))) (ext s) = (Inr (Some p), w1) \<Longrightarrow>
   auth_username env (session_authId (session req)) w1 = (Inr (Some u), w2) \<Longrightarrow> u \<noteq> [] \<Longrightarrow>
   puzzle_review env p (review_of u now req) w2 = (Inr (), w3) \<Longrightarrow>
   puzzle_next env w3 = (Inr (Some nx), w4) \<Longrightarrow>
   post_review env js now req s =
     (Inr (send (js \<lparr>username = u, puzzle = nx\<rparr>)),
      s\<lparr>ext := w4, calls := calls s @ [PuzzleGet (parseInt (Some (params_id req))),
                                        AuthUsername (session_authId (session req)),
                                        PuzzleReview p (review_of u now req), PuzzleNext]\<rparr>)"
  by (simp add: post_review_def perform_def)

lemma not_falsy: "(\<not> falsy un) = (\<exists>u. un = Some u \<and> u \<noteq> [])"
  by (cases un) auto

lemma post_review_review_call:
  "PuzzleReview p r \<in> set (new_calls s (snd (post_review env js now req s))) \<Longrightarrow>
   \<exists>w1 u w2. puzzle_get env (parseInt (Some (params_id req))) (ext s) = (Inr (Some p), w1)
      \<and> auth_username env (session_authId (session req)) w1 = (Inr (Some u), w2)
      \<and> u \<noteq> [] \<and> r = review_of u now req"
  unfolding post_review_def new_calls_def Let_def
  by (auto simp: perform_def not_falsy split: prod.splits sum.splits option.splits if_splits)

lemma parseInt_examples:
  "parseInt (Some ''1'') = Num 1"
  "parseInt (Some ''9'') = Num 9"
  "parseInt (Some ''5'') = Num 5"
  "parseInt (Some ''1500'') = Num 1500"
  "parseInt (Some ''abc'') = NaN"
  "parseInt None = NaN"
  by code_simp+

lemmas ref_defs =
  ref_env_def backlog_env_def store_get_def store_next_def store_next_backlog_def
  store_review_def store_username_def store_save_def review_count_def
  store1_def store2_def store0_def sys_of_def request_def alice_session_def
  session_authId_def puzzle1_def puzzle2_def

lemma new_calls_append: "new_calls s (s\<lparr>ext := w, calls := calls s @ cs\<rparr>) = cs"
  by (simp add: new_calls_def)

lemma post_review_review_made:
  assumes "puzzle_get env (parseInt (Some (params_id req))) (ext s) = (Inr (Some p), w1)"
    and "auth_username env (session_authId (session req)) w1 = (Inr (Some u), w2)"
    and "u \<noteq> []"
  shows "\<exists>cs. new_calls s (snd (post_review env js now req s)) =
           [PuzzleGet (parseInt (Some (params_id req))),
            AuthUsername (session_authId (session req)),
            PuzzleReview p (review_of u now req)] @ cs"
  using assms
  by (auto simp: post_review_def perform_def new_calls_def Let_def
      split: sum.splits option.splits prod.splits)

lemma renderPuzzle_calls:
  "\<exists>cs. calls (snd (renderPuzzle env js se pz s)) = calls s @ cs \<and> filter is_get cs = []
      \<and> filter is_review cs = []"
  by (auto simp: renderPuzzle_def perform_def Let_def split: option.splits sum.splits prod.splits)

lemma get_puzzle_first_call:
  "\<exists>cs. new_calls s (snd (get_puzzle env js req s)) =
          PuzzleGet (parseInt (Some (params_id req))) # cs \<and> filter is_get cs = []"
proof (cases "puzzle_get env (parseInt (Some (params_id req))) (ext s)")
  case (Pair r w1)
  show ?thesis
  proof (cases r)
    case (Inl e)
    with Pair show ?thesis
      by (simp add: get_puzzle_def perform_def new_calls_def Let_def)
  next
    case (Inr pz)
    let ?s1 = "s\<lparr>ext := w1, calls := calls s @ [PuzzleGet (parseInt (Some (params_id req)))]\<rparr>"
    from renderPuzzle_calls [of env js "session req" pz ?s1]
    obtain cs where "calls (snd (renderPuzzle env js (session req) pz ?s1)) = calls ?s1 @ cs"
      and "filter is_get cs = []" by blast
    with Pair Inr show ?thesis
      by (simp add: get_puzzle_def perform_def new_calls_def Let_def)
  qed
qed

lemma post_review_first_call:
  "\<exists>cs. new_calls s (snd (post_review env js now req s)) =
          PuzzleGet (parseInt (Some (params_id req))) # cs \<and> filter is_get cs = []"
  by (auto simp: post_review_def perform_def new_calls_def Let_def
      split: sum.splits option.splits prod.splits)

lemma renderPuzzle_missing:
  "renderPuzzle env js se None s = (Inr (status_end 404), s)"
  by (simp add: renderPuzzle_def)

lemma renderPuzzle_login:
  "auth_username env (session_authId se) (ext s) = (Inr un, w2) \<Longrightarrow> falsy un \<Longrightarrow>
   renderPuzzle env js se (Some p) s =
     (Inr (send (htmlPage loginPrompt)),
      s\<lparr>ext := w2, calls := calls s @ [AuthUsername (session_authId se)]\<rparr>)"
  by (simp add: renderPuzzle_def perform_def)


lemma get_root_render:
  "puzzle_next env (ext s) = (Inr pz, w1) \<Longrightarrow>
   get_root env js req s =
     renderPuzzle env js (session req) pz (s\<lparr>ext := w1, calls := calls s @ [PuzzleNext]\<rparr>)"
  by (simp add: get_root_def perform_def)

lemma get_puzzle_render:
  "puzzle_get env (parseInt (Some (params_id req))) (ext s) = (Inr pz, w1) \<Longrightarrow>
   get_puzzle env js req s =
     renderPuzzle env js (session req) pz
       (s\<lparr>ext := w1, calls := calls s @ [PuzzleGet (parseInt (Some (params_id req)))]\<rparr>)"
  by (simp add: get_puzzle_def perform_def)

lemma session_authId_empty:
  "session req = None \<or> (\<exists>se. session req = Some se \<and> (authId se = None \<or> authId se = Some []))
   \<Longrightarrow> session_authId (session req) = []"
  by (auto simp: session_authId_def)

lemma get_root_no_review:
  "filter is_review (new_calls s (snd (get_root env js req s))) = []"
proof (cases "puzzle_next env (ext s)")
  case (Pair r w1)
  show ?thesis
  proof (cases r)
    case (Inl e)
    with Pair show ?thesis
      by (simp add: get_root_def perform_def new_calls_def)
  next
    case (Inr pz)
    let ?s1 = "s\<lparr>ext := w1, calls := calls s @ [PuzzleNext]\<rparr>"
    from renderPuzzle_calls [of env js "session req" pz ?s1]
    obtain cs where "calls (snd (renderPuzzle env js (session req) pz ?s1)) = calls ?s1 @ cs"
      and "filter is_review cs = []" by blast
    with Pair Inr show ?thesis
      by (simp add: get_root_render new_calls_def)
  qed
qed

lemma get_puzzle_no_review:
  "filter is_review (new_calls s (snd (get_puzzle env js req s))) = []"
proof (cases "puzzle_get env (parseInt (Some (params_id req))) (ext s)")
  case (Pair r w1)
  show ?thesis
  proof (cases r)
    case (Inl e)
    with Pair show ?thesis
      by (simp add: get_puzzle_def perform_def new_calls_def)
  next
    case (Inr pz)
    let ?s1 = "s\<lparr>ext := w1, calls := calls s @ [PuzzleGet (parseInt (Some (params_id req)))]\<rparr>"
    from renderPuzzle_calls [of env js "session req" pz ?s1]
    obtain cs where "calls (snd (renderPuzzle env js (session req) pz ?s1)) = calls ?s1 @ cs"
      and "filter is_review cs = []" by blast
    with Pair Inr show ?thesis
      by (simp add: get_puzzle_render new_calls_def)
  qed
qed

lemma get_auth_no_review:
  "filter is_review (new_calls s (snd (get_auth oauth s))) = []"
  by (simp add: get_auth_def console_write_def new_calls_def)

lemma get_oauth_callback_no_review:
  "filter is_review (new_calls s (snd (snd (get_oauth_callback env oauth req s)))) = []"
  by (auto simp: get_oauth_callback_def oauth_try_def perform_def console_write_def
      new_calls_def split: prod.splits sum.splits option.splits)

lemma get_logout_session:
  "session req = Some se \<Longrightarrow>
   get_logout req = (Inr (redirect ''/''), Some (se\<lparr>authId := Some []\<rparr>))"
  by (simp add: get_logout_def)

subsection \<open>The claims\<close>

text \<open>
  Claim C1. The review route asks the store for the puzzle, then resolves the username,
  then appends the review, then fetches the next puzzle, in this order, and stops at the
  first step that fails: the calls it makes are always a prefix of that sequence; a missing
  puzzle gives 404 after the lookup alone; a username that does not resolve gives 403 after
  the lookup and the resolution alone; after the append, a missing next puzzle gives 404
  and a next puzzle gives the JSON text of \<open>{username, puzzle: next}\<close>. So a review is
  passed to the store only when the puzzle was found and a non-empty username resolved.
\<close>

theorem review_route_order:
  "(\<exists>p r. prefix (new_calls s (snd (post_review env js now req s)))
      [PuzzleGet (parseInt (Some (params_id req))), AuthUsername (session_authId (session req)),
       PuzzleReview p r, PuzzleNext])
   \<and> (puzzle_get env (parseInt (Some (params_id req))) (ext s) = (Inr None, w1) \<longrightarrow>
        post_review env js now req s =
          (Inr (status_end 404),
           s\<lparr>ext := w1, calls := calls s @ [PuzzleGet (parseInt (Some (params_id req)))]\<rparr>))
   \<and> (puzzle_get env (parseInt (Some (params_id req))) (ext s) = (Inr (Some p), w1) \<and>
        auth_username env (session_authId (session req)) w1 = (Inr un, w2) \<and> falsy un \<longrightarrow>
        post_review env js now req s =
          (Inr (status_end 403),
           s\<lparr>ext := w2, calls := calls s @ [PuzzleGet (parseInt (Some (params_id req))),
                                             AuthUsername (session_authId (session req))]\<rparr>))
   \<and> (puzzle_get env (parseInt (Some (params_id req))) (ext s) = (Inr (Some p), w1) \<and>
        auth_username env (session_authId (session req)) w1 = (Inr (Some u), w2) \<and> u \<noteq> [] \<and>
        puzzle_review env p (review_of u now req) w2 = (Inr (), w3) \<and>
        puzzle_next env w3 = (Inr None, w4) \<longrightarrow>
        post_review env js now req s =
          (Inr (status_end 404),
           s\<lparr>ext := w4, calls := calls s @ [PuzzleGet (parseInt (Some (params_id req))),
                                             AuthUsername (session_authId (session req)),
                                             PuzzleReview p (review_of u now req), PuzzleNext]\<rparr>))
   \<and> (puzzle_get env (parseInt (Some (params_id req))) (ext s) = (Inr (Some p), w1) \<and>
        auth_username env (session_authId (session req)) w1 = (Inr (Some u), w2) \<and> u \<noteq> [] \<and>
        puzzle_review env p (review_of u now req) w2 = (Inr (), w3) \<and>
        puzzle_next env w3 = (Inr (Some nx), w4) \<longrightarrow>
        post_review env js now req s =
          (Inr (send (js \<lparr>username = u, puzzle = nx\<rparr>)),
           s\<lparr>ext := w4, calls := calls s @ [PuzzleGet (parseInt (Some (params_id req))),
                                             AuthUsername (session_authId (session req)),
                                             PuzzleReview p (review_of u now req), PuzzleNext]\<rparr>))
   \<and> (\<forall>q r. PuzzleReview q r \<in> set (new_calls s (snd (post_review env js now req s))) \<longrightarrow>
        (\<exists>v1 v v2. puzzle_get env (parseInt (Some (params_id req))) (ext s) = (Inr (Some q), v1)
           \<and> auth_username env (session_authId (session req)) v1 = (Inr (Some v), v2)
           \<and> v \<noteq> []))"
proof (intro conjI impI allI)
  show "\<exists>p r. prefix (new_calls s (snd (post_review env js now req s)))
      [PuzzleGet (parseInt (Some (params_id req))), AuthUsername (session_authId (session req)),
       PuzzleReview p r, PuzzleNext]"
    by (rule post_review_calls)
next
  assume "puzzle_get env (parseInt (Some (params_id req))) (ext s) = (Inr None, w1)"
  then show "post_review env js now req s =
          (Inr (status_end 404),
           s\<lparr>ext := w1, calls := calls s @ [PuzzleGet (parseInt (Some (params_id req)))]\<rparr>)"
    by (rule post_review_missing)
next
  assume "puzzle_get env (parseInt (Some (params_id req))) (ext s) = (Inr (Some p), w1) \<and>
        auth_username env (session_authId (session req)) w1 = (Inr un, w2) \<and> falsy un"
  then show "post_review env js now req s =
          (Inr (status_end 403),
           s\<lparr>ext := w2, calls := calls s @ [PuzzleGet (parseInt (Some (params_id req))),
                                             AuthUsername (session_authId (session req))]\<rparr>)"
    by (simp add: post_review_unauthenticated)
next
  assume "puzzle_get env (parseInt (Some (params_id req))) (ext s) = (Inr (Some p), w1) \<and>
        auth_username env (session_authId (session req)) w1 = (Inr (Some u), w2) \<and> u \<noteq> [] \<and>
        puzzle_review env p (review_of u now req) w2 = (Inr (), w3) \<and>
        puzzle_next env w3 = (Inr None, w4)"
  then show "post_review env js now req s =
          (Inr (status_end 404),
           s\<lparr>ext := w4, calls := calls s @ [PuzzleGet (parseInt (Some (params_id req))),
                                             AuthUsername (session_authId (session req)),
                                             PuzzleReview p (review_of u now req), PuzzleNext]\<rparr>)"
    by (simp add: post_review_exhausted)
next
  assume "puzzle_get env (parseInt (Some (params_id req))) (ext s) = (Inr (Some p), w1) \<and>
        auth_username env (session_authId (session req)) w1 = (Inr (Some u), w2) \<and> u \<noteq> [] \<and>
        puzzle_review env p (review_of u now req) w2 = (Inr (), w3) \<and>
        puzzle_next env w3 = (Inr (Some nx), w4)"
  then show "post_review env js now req s =
          (Inr (send (js \<lparr>username = u, puzzle = nx\<rparr>)),
           s\<lparr>ext := w4, calls := calls s @ [PuzzleGet (parseInt (Some (params_id req))),
                                             AuthUsername (session_authId (session req)),
                                             PuzzleReview p (review_of u now req), PuzzleNext]\<rparr>)"
    by (simp add: post_review_success)
next
  fix q r
  assume "PuzzleReview q r \<in> set (new_calls s (snd (post_review env js now req s)))"
  from post_review_review_call [OF this]
  show "\<exists>v1 v v2. puzzle_get env (parseInt (Some (params_id req))) (ext s) = (Inr (Some q), v1)
           \<and> auth_username env (session_authId (session req)) v1 = (Inr (Some v), v2)
           \<and> v \<noteq> []"
    by blast
qed

theorem review_route_order_witness:
  "post_review ref_env ref_stringify 7 (request ''9'' alice_session) (sys_of store1) =
     (Inr (status_end 404), \<lparr>ext = store1, calls = [PuzzleGet (Num 9)], console = []\<rparr>)
   \<and> post_review ref_env ref_stringify 7 (request ''1'' None) (sys_of store1) =
     (Inr (status_end 403),
      \<lparr>ext = store1, calls = [PuzzleGet (Num 1), AuthUsername []], console = []\<rparr>)
   \<and> post_review backlog_env ref_stringify 7 (request ''1'' alice_session) (sys_of store1) =
     (Inr (status_end 404),
      \<lparr>ext = store1\<lparr>reviews := [(1, review_of ''alice'' 7 (request ''1'' alice_session))]\<rparr>,
       calls = [PuzzleGet (Num 1), AuthUsername ''k'',
                PuzzleReview puzzle1 (review_of ''alice'' 7 (request ''1'' alice_session)),
                PuzzleNext],
       console = []\<rparr>)
   \<and> post_review ref_env ref_stringify 7 (request ''1'' alice_session) (sys_of store2) =
     (Inr (send (ref_stringify \<lparr>username = ''alice'', puzzle = puzzle2\<rparr>)),
      \<lparr>ext = store2\<lparr>reviews := [(1, review_of ''alice'' 7 (request ''1'' alice_session))]\<rparr>,
       calls = [PuzzleGet (Num 1), AuthUsername ''k'',
                PuzzleReview puzzle1 (review_of ''alice'' 7 (request ''1'' alice_session)),
                PuzzleNext],
       console = []\<rparr>)"
  using
    review_route_order [where env = ref_env and js = ref_stringify and now = 7
      and req = "request ''9'' alice_session" and s = "sys_of store1" and ?w1.0 = store1]
    review_route_order [where env = ref_env and js = ref_stringify and now = 7
      and req = "request ''1'' None" and s = "sys_of store1" and ?w1.0 = store1
      and p = puzzle1 and un = None and ?w2.0 = store1]
    review_route_order [where env = backlog_env and js = ref_stringify and now = 7
      and req = "request ''1'' alice_session" and s = "sys_of store1" and ?w1.0 = store1
      and p = puzzle1 and u = "''alice''" and ?w2.0 = store1
      and ?w3.0 = "store1\<lparr>reviews := [(1, review_of ''alice'' 7 (request ''1'' alice_session))]\<rparr>"
      and ?w4.0 = "store1\<lparr>reviews := [(1, review_of ''alice'' 7 (request ''1'' alice_session))]\<rparr>"]
    review_route_order [where env = ref_env and js = ref_stringify and now = 7
      and req = "request ''1'' alice_session" and s = "sys_of store2" and ?w1.0 = store2
      and p = puzzle1 and u = "''alice''" and ?w2.0 = store2 and nx = puzzle2
      and ?w3.0 = "store2\<lparr>reviews := [(1, review_of ''alice'' 7 (request ''1'' alice_session))]\<rparr>"
      and ?w4.0 = "store2\<lparr>reviews := [(1, review_of ''alice'' 7 (request ''1'' alice_session))]\<rparr>"]
  by (simp add: ref_defs parseInt_examples)

text \<open>
  Claim C2, as the code has it. The review route has no validation of \<open>score\<close> and
  \<open>rating\<close>: on an existing puzzle, for an authenticated caller, a value that
  \<open>parseInt\<close> turns into \<open>NaN\<close> is not rejected. The review passed to the store
  carries \<open>parseInt\<close> of both strings, \<open>NaN\<close> included, and when the append resolves
  and a next puzzle exists the response has status 200.
\<close>

theorem review_malformed_numbers:
  assumes "puzzle_get env (parseInt (Some (params_id req))) (ext s) = (Inr (Some p), w1)"
    and "auth_username env (session_authId (session req)) w1 = (Inr (Some u), w2)"
    and "u \<noteq> []"
    and "parseInt (query_score req) = NaN \<or> parseInt (query_rating req) = NaN"
  shows "(\<exists>r. PuzzleReview p r \<in> set (new_calls s (snd (post_review env js now req s)))
            \<and> score r = parseInt (query_score req) \<and> rating r = parseInt (query_rating req)
            \<and> (score r = NaN \<or> rating r = NaN))
    \<and> (puzzle_review env p (review_of u now req) w2 = (Inr (), w3) \<and>
        puzzle_next env w3 = (Inr (Some nx), w4) \<longrightarrow>
        fst (post_review env js now req s) =
          Inr \<lparr>status = 200, body = Send (js \<lparr>username = u, puzzle = nx\<rparr>)\<rparr>)"
proof (intro conjI impI)
  from post_review_review_made [OF assms(1-3), of js now]
  obtain cs where "new_calls s (snd (post_review env js now req s)) =
           [PuzzleGet (parseInt (Some (params_id req))),
            AuthUsername (session_authId (session req)),
            PuzzleReview p (review_of u now req)] @ cs" ..
  then have "PuzzleReview p (review_of u now req)
      \<in> set (new_calls s (snd (post_review env js now req s)))"
    by simp
  with assms(4)
  show "\<exists>r. PuzzleReview p r \<in> set (new_calls s (snd (post_review env js now req s)))
            \<and> score r = parseInt (query_score req) \<and> rating r = parseInt (query_rating req)
            \<and> (score r = NaN \<or> rating r = NaN)"
    by (intro exI [of _ "review_of u now req"]) (simp add: review_of_def)
next
  assume "puzzle_review env p (review_of u now req) w2 = (Inr (), w3) \<and>
        puzzle_next env w3 = (Inr (Some nx), w4)"
  with post_review_success [OF assms(1-3), of now w3 nx w4 js]
  show "fst (post_review env js now req s) =
          Inr \<lparr>status = 200, body = Send (js \<lparr>username = u, puzzle = nx\<rparr>)\<rparr>"
    by (simp add: send_def)
qed

theorem review_malformed_numbers_witness:
  "parseInt (query_score ((request ''1'' alice_session)\<lparr>query_score := Some ''abc''\<rparr>)) = NaN
   \<and> PuzzleReview puzzle1
        \<lparr>by = ''alice'', at = 7, score = NaN, comment = Some ''ok'', rating = Num 1500\<rparr>
      \<in> set (new_calls (sys_of store2)
          (snd (post_review ref_env ref_stringify 7
             ((request ''1'' alice_session)\<lparr>query_score := Some ''abc''\<rparr>) (sys_of store2))))
   \<and> fst (post_review ref_env ref_stringify 7
         ((request ''1'' alice_session)\<lparr>query_score := Some ''abc''\<rparr>) (sys_of store2)) =
       Inr \<lparr>status = 200,
            body = Send (ref_stringify \<lparr>username = ''alice'', puzzle = puzzle2\<rparr>)\<rparr>"
proof -
  let ?req = "(request ''1'' alice_session)\<lparr>query_score := Some ''abc''\<rparr>"
  let ?w = "store2\<lparr>reviews := [(1, review_of ''alice'' 7 ?req)]\<rparr>"
  have nan: "parseInt (query_score ?req) = NaN"
    by (simp add: request_def parseInt_examples)
  have made: "PuzzleReview puzzle1
        \<lparr>by = ''alice'', at = 7, score = NaN, comment = Some ''ok'', rating = Num 1500\<rparr>
      \<in> set (new_calls (sys_of store2)
          (snd (post_review ref_env ref_stringify 7 ?req (sys_of store2))))"
    by (simp add: post_review_def perform_def new_calls_def Let_def ref_defs
        parseInt_examples review_of_def)
  from review_malformed_numbers [where env = ref_env and js = ref_stringify and now = 7
      and req = ?req and s = "sys_of store2" and ?w1.0 = store2 and p = puzzle1
      and u = "''alice''" and ?w2.0 = store2 and nx = puzzle2 and ?w3.0 = ?w and ?w4.0 = ?w]
  have "fst (post_review ref_env ref_stringify 7 ?req (sys_of store2)) =
       Inr \<lparr>status = 200,
            body = Send (ref_stringify \<lparr>username = ''alice'', puzzle = puzzle2\<rparr>)\<rparr>"
    by (simp add: ref_defs parseInt_examples review_of_def)
  with nan made show ?thesis by simp
qed

text \<open>
  Claim C2 as stated fails: a review request with \<open>score=abc\<close> on an existing puzzle by
  an authenticated caller is answered with status 200, and the review that the store
  receives and keeps has the score \<open>NaN\<close>.
\<close>

theorem review_malformed_score_counterexample:
  "parseInt (Some ''abc'') = NaN
   \<and> post_review ref_env ref_stringify 7
        ((request ''1'' alice_session)\<lparr>query_score := Some ''abc''\<rparr>) (sys_of store2) =
      (Inr \<lparr>status = 200,
            body = Send (ref_stringify \<lparr>username = ''alice'', puzzle = puzzle2\<rparr>)\<rparr>,
       \<lparr>ext = store2\<lparr>reviews :=
           [(1, \<lparr>by = ''alice'', at = 7, score = NaN, comment = Some ''ok'',
                 rating = Num 1500\<rparr>)]\<rparr>,
        calls = [PuzzleGet (Num 1), AuthUsername ''k'',
                 PuzzleReview puzzle1
                   \<lparr>by = ''alice'', at = 7, score = NaN, comment = Some ''ok'',
                    rating = Num 1500\<rparr>,
                 PuzzleNext],
        console = []\<rparr>)"
  by (simp add: post_review_def perform_def Let_def ref_defs parseInt_examples review_of_def
      send_def)






text \<open>
  Claim C5, as the code has it. A session is unauthenticated when no username resolves
  for \<open>session?.authId || ''\<close>; with no session object, or no or an empty \<open>authId\<close>, the
  authId that is looked up is the empty string. For such a session, when the lookup finds
  a puzzle, \<open>GET /\<close> and \<open>GET /puzzle/:id\<close> answer with the login page and
  \<open>POST /review/:id\<close> answers 403 without passing a review to the store. When the lookup
  finds no puzzle, each of the three answers 404 instead.
\<close>

theorem unauthenticated_responses:
  "((session req = None \<or>
      (\<exists>se. session req = Some se \<and> (authId se = None \<or> authId se = Some []))) \<longrightarrow>
      session_authId (session req) = [])
   \<and> (puzzle_next env (ext s) = (Inr (Some p), w1) \<and>
       auth_username env (session_authId (session req)) w1 = (Inr un, w2) \<and> falsy un \<longrightarrow>
      fst (get_root env js req s) = Inr (send (htmlPage loginPrompt)))
   \<and> (puzzle_get env (parseInt (Some (params_id req))) (ext s) = (Inr (Some p), w1) \<and>
       auth_username env (session_authId (session req)) w1 = (Inr un, w2) \<and> falsy un \<longrightarrow>
      fst (get_puzzle env js req s) = Inr (send (htmlPage loginPrompt))
      \<and> fst (post_review env js now req s) = Inr \<lparr>status = 403, body = End\<rparr>
      \<and> filter is_review (new_calls s (snd (post_review env js now req s))) = [])
   \<and> (puzzle_next env (ext s) = (Inr None, w1) \<longrightarrow>
      fst (get_root env js req s) = Inr \<lparr>status = 404, body = End\<rparr>)
   \<and> (puzzle_get env (parseInt (Some (params_id req))) (ext s) = (Inr None, w1) \<longrightarrow>
      fst (get_puzzle env js req s) = Inr \<lparr>status = 404, body = End\<rparr>
      \<and> fst (post_review env js now req s) = Inr \<lparr>status = 404, body = End\<rparr>)"
proof (intro conjI impI)
  assume "session req = None \<or>
      (\<exists>se. session req = Some se \<and> (authId se = None \<or> authId se = Some []))"
  then show "session_authId (session req) = []" by (rule session_authId_empty)
next
  assume "puzzle_next env (ext s) = (Inr (Some p), w1) \<and>
       auth_username env (session_authId (session req)) w1 = (Inr un, w2) \<and> falsy un"
  then show "fst (get_root env js req s) = Inr (send (htmlPage loginPrompt))"
    by (simp add: get_root_render renderPuzzle_login)
next
  assume a: "puzzle_get env (parseInt (Some (params_id req))) (ext s) = (Inr (Some p), w1) \<and>
       auth_username env (session_authId (session req)) w1 = (Inr un, w2) \<and> falsy un"
  then show "fst (get_puzzle env js req s) = Inr (send (htmlPage loginPrompt))"
    by (simp add: get_puzzle_render renderPuzzle_login)
  from a have r: "post_review env js now req s =
     (Inr (status_end 403),
      s\<lparr>ext := w2, calls := calls s @ [PuzzleGet (parseInt (Some (params_id req))),
                                        AuthUsername (session_authId (session req))]\<rparr>)"
    by (simp add: post_review_unauthenticated)
  show "fst (post_review env js now req s) = Inr \<lparr>status = 403, body = End\<rparr>"
    by (simp add: r status_end_def)
  show "filter is_review (new_calls s (snd (post_review env js now req s))) = []"
    by (simp add: r new_calls_append)
next
  assume "puzzle_next env (ext s) = (Inr None, w1)"
  then show "fst (get_root env js req s) = Inr \<lparr>status = 404, body = End\<rparr>"
    by (simp add: get_root_render renderPuzzle_missing status_end_def)
next
  assume a: "puzzle_get env (parseInt (Some (params_id req))) (ext s) = (Inr None, w1)"
  then show "fst (get_puzzle env js req s) = Inr \<lparr>status = 404, body = End\<rparr>"
    by (simp add: get_puzzle_render renderPuzzle_missing status_end_def)
  from a show "fst (post_review env js now req s) = Inr \<lparr>status = 404, body = End\<rparr>"
    by (simp add: post_review_missing status_end_def)
qed

theorem unauthenticated_responses_witness:
  "session_authId (session (request ''1'' None)) = []
   \<and> session_authId (session (request ''1'' (Some \<lparr>authId = Some []\<rparr>))) = []
   \<and> fst (get_root ref_env ref_stringify (request ''1'' None) (sys_of store1)) =
       Inr (send (htmlPage loginPrompt))
   \<and> fst (get_puzzle ref_env ref_stringify (request ''1'' None) (sys_of store1)) =
       Inr (send (htmlPage loginPrompt))
   \<and> fst (post_review ref_env ref_stringify 7 (request ''1'' None) (sys_of store1)) =
       Inr \<lparr>status = 403, body = End\<rparr>
   \<and> fst (get_puzzle ref_env ref_stringify (request ''1'' (Some \<lparr>authId = Some ''zz''\<rparr>))
        (sys_of store1)) = Inr (send (htmlPage loginPrompt))
   \<and> fst (get_root ref_env ref_stringify (request ''1'' None) (sys_of store0)) =
       Inr \<lparr>status = 404, body = End\<rparr>"
  using
    unauthenticated_responses [where env = ref_env and js = ref_stringify and now = 7
      and req = "request ''1'' None" and s = "sys_of store1" and ?w1.0 = store1
      and p = puzzle1 and un = None and ?w2.0 = store1]
    unauthenticated_responses [where req = "request ''1'' (Some \<lparr>authId = Some []\<rparr>)"]
    unauthenticated_responses [where env = ref_env and js = ref_stringify and now = 7
      and req = "request ''1'' (Some \<lparr>authId = Some ''zz''\<rparr>)" and s = "sys_of store1"
      and ?w1.0 = store1 and p = puzzle1 and un = None and ?w2.0 = store1]
    unauthenticated_responses [where env = ref_env and js = ref_stringify and now = 7
      and req = "request ''1'' None" and s = "sys_of store0" and ?w1.0 = store0]
  by (simp add: ref_defs parseInt_examples)

text \<open>
  Claim C5 as stated fails: with no session at all, a request for a puzzle that the store
  does not have is answered 404 by \<open>GET /puzzle/:id\<close> (not the login page) and by
  \<open>POST /review/:id\<close> (not 403), and so is \<open>GET /\<close> on a store without puzzles.
\<close>

theorem unauthenticated_missing_puzzle_counterexample:
  "session (request ''9'' None) = None
   \<and> fst (get_puzzle ref_env ref_stringify (request ''9'' None) (sys_of store1)) =
       Inr \<lparr>status = 404, body = End\<rparr>
   \<and> fst (post_review ref_env ref_stringify 7 (request ''9'' None) (sys_of store1)) =
       Inr \<lparr>status = 404, body = End\<rparr>
   \<and> fst (get_root ref_env ref_stringify (request ''9'' None) (sys_of store0)) =
       Inr \<lparr>status = 404, body = End\<rparr>"
  by (simp add: get_puzzle_def get_root_def post_review_def renderPuzzle_def perform_def
      Let_def ref_defs parseInt_examples status_end_def)

text \<open>
  Claim C6, as the code has it. Neither route checks the \<open>:id\<close> parameter. Both call the
  store's \<open>get\<close> as their first adapter call, exactly once, with \<open>parseInt\<close> of the
  parameter, whatever the parameter is; for a parameter with no leading integer that
  argument is \<open>NaN\<close>.
\<close>

theorem lookup_always_called:
  "(\<exists>cs. new_calls s (snd (get_puzzle env js req s)) =
          PuzzleGet (parseInt (Some (params_id req))) # cs \<and> filter is_get cs = [])
   \<and> (\<exists>cs. new_calls s (snd (post_review env js now req s)) =
          PuzzleGet (parseInt (Some (params_id req))) # cs \<and> filter is_get cs = [])"
  using get_puzzle_first_call post_review_first_call by blast

text \<open>
  Claim C6 as stated fails: for the path parameter \<open>abc\<close> both routes call the store's
  \<open>get\<close>, with the argument \<open>NaN\<close>.
\<close>

theorem lookup_with_NaN_counterexample:
  "calls (snd (get_puzzle ref_env ref_stringify (request ''abc'' alice_session) (sys_of store1))) =
     [PuzzleGet NaN]
   \<and> calls (snd (post_review ref_env ref_stringify 7 (request ''abc'' alice_session)
        (sys_of store1))) = [PuzzleGet NaN]"
  by (simp add: get_puzzle_def post_review_def renderPuzzle_def perform_def Let_def ref_defs
      parseInt_examples)

text \<open>
  Claim C7. When the token exchange, the user-info fetch or the credential save rejects,
  the callback route answers with status 500 and the fixed JSON text
  \<open>"Authentication failed"\<close>, which is the same for every authorization code, token and
  error; the session is the one the request came with; the error's message goes to the
  server console only.
\<close>

theorem oauth_failure_generic:
  assumes "getToken oauth (query_code req) (ext s) = (Inl e, w1)
     \<or> (getToken oauth (query_code req) (ext s) = (Inr tk, w1) \<and>
        getUserInfo oauth tk w1 = (Inl e, w2))
     \<or> (getToken oauth (query_code req) (ext s) = (Inr tk, w1) \<and>
        getUserInfo oauth tk w1 = (Inr user, w2) \<and>
        auth_save env (token tk) (user_username user) w2 = (Inl e, w3))"
  shows \<open>fst (get_oauth_callback env oauth req s) =
           \<lparr>status = 500, body = Send ''"Authentication failed"''\<rparr>
    \<and> fst (snd (get_oauth_callback env oauth req s)) = session req
    \<and> console (snd (snd (get_oauth_callback env oauth req s))) =
        console s @ [''Access Token Error '' @ message e]\<close>
  using assms
  by (auto simp: get_oauth_callback_def oauth_try_def perform_def status_json_def
      console_write_def)

theorem oauth_failure_generic_witness:
  \<open>fst (get_oauth_callback ref_env ref_oauth
          ((request ''1'' alice_session)\<lparr>query_code := Some ''bad''\<rparr>) (sys_of store1)) =
     \<lparr>status = 500, body = Send ''"Authentication failed"''\<rparr>
   \<and> fst (snd (get_oauth_callback ref_env ref_oauth
          ((request ''1'' alice_session)\<lparr>query_code := Some ''bad''\<rparr>) (sys_of store1))) =
     alice_session
   \<and> fst (get_oauth_callback ref_env
          (ref_oauth\<lparr>getUserInfo := \<lambda>tk w. (Inl (Error ''provider down''), w)\<rparr>)
          ((request ''1'' None)\<lparr>query_code := Some ''code1''\<rparr>) (sys_of store1)) =
     \<lparr>status = 500, body = Send ''"Authentication failed"''\<rparr>
   \<and> fst (get_oauth_callback
          (ref_env\<lparr>auth_save := \<lambda>t u w. (Inl (Error ''write failed''), w)\<rparr>) ref_oauth
          ((request ''1'' None)\<lparr>query_code := Some ''code1''\<rparr>) (sys_of store1)) =
     \<lparr>status = 500, body = Send ''"Authentication failed"''\<rparr>\<close>
  using
    oauth_failure_generic [where env = ref_env and oauth = ref_oauth
      and req = "(request ''1'' alice_session)\<lparr>query_code := Some ''bad''\<rparr>"
      and s = "sys_of store1" and e = "Error ''invalid_grant bad''" and ?w1.0 = store1]
    oauth_failure_generic [where env = ref_env
      and oauth = "ref_oauth\<lparr>getUserInfo := \<lambda>tk w. (Inl (Error ''provider down''), w)\<rparr>"
      and req = "(request ''1'' None)\<lparr>query_code := Some ''code1''\<rparr>"
      and s = "sys_of store1" and e = "Error ''provider down''" and ?w1.0 = store1
      and tk = "\<lparr>token = ''tok1''\<rparr>" and ?w2.0 = store1]
    oauth_failure_generic [where
      env = "ref_env\<lparr>auth_save := \<lambda>t u w. (Inl (Error ''write failed''), w)\<rparr>"
      and oauth = ref_oauth
      and req = "(request ''1'' None)\<lparr>query_code := Some ''code1''\<rparr>"
      and s = "sys_of store1" and e = "Error ''write failed''" and ?w1.0 = store1
      and tk = "\<lparr>token = ''tok1''\<rparr>" and ?w2.0 = store1
      and user = "\<lparr>user_username = ''alice''\<rparr>" and ?w3.0 = store1]
  by (simp add: ref_defs ref_oauth_def provider_getToken_def provider_getUserInfo_def)

text \<open>
  Claim C8. Every review that the router passes to the store's append has a non-empty
  \<open>by\<close>, and that \<open>by\<close> is the username the auth adapter resolved for the authId of the
  requester's session. Only the review route passes reviews to the store: the page
  routes, the login redirect and the OAuth callback make no append call (the logout route
  makes no adapter call at all).
\<close>

theorem review_by_resolved_username:
  "(\<forall>p r. PuzzleReview p r \<in> set (new_calls s (snd (post_review env js now req s))) \<longrightarrow>
      by r \<noteq> [] \<and>
      (\<exists>w1 w2. puzzle_get env (parseInt (Some (params_id req))) (ext s) = (Inr (Some p), w1)
         \<and> auth_username env (session_authId (session req)) w1 = (Inr (Some (by r)), w2)))
   \<and> filter is_review (new_calls s (snd (get_root env js req s))) = []
   \<and> filter is_review (new_calls s (snd (get_puzzle env js req s))) = []
   \<and> filter is_review (new_calls s (snd (get_auth oauth s))) = []
   \<and> filter is_review (new_calls s (snd (snd (get_oauth_callback env oauth req s)))) = []"
proof (intro conjI allI impI)
  fix p r
  assume "PuzzleReview p r \<in> set (new_calls s (snd (post_review env js now req s)))"
  from post_review_review_call [OF this]
  obtain w1 u w2 where
    g: "puzzle_get env (parseInt (Some (params_id req))) (ext s) = (Inr (Some p), w1)"
    and a: "auth_username env (session_authId (session req)) w1 = (Inr (Some u), w2)"
    and "u \<noteq> []" and "r = review_of u now req" by blast
  then have u: "by r = u" by (simp add: review_of_def)
  with \<open>u \<noteq> []\<close> show "by r \<noteq> []" by simp
  from u g a
  show "\<exists>w1 w2. puzzle_get env (parseInt (Some (params_id req))) (ext s) = (Inr (Some p), w1)
         \<and> auth_username env (session_authId (session req)) w1 = (Inr (Some (by r)), w2)"
    by auto
qed (rule get_root_no_review get_puzzle_no_review get_auth_no_review
      get_oauth_callback_no_review)+

theorem review_by_resolved_username_witness:
  "PuzzleReview puzzle1 (review_of ''alice'' 7 (request ''1'' alice_session))
     \<in> set (new_calls (sys_of store2)
         (snd (post_review ref_env ref_stringify 7 (request ''1'' alice_session) (sys_of store2))))
   \<and> by (review_of ''alice'' 7 (request ''1'' alice_session)) \<noteq> []
   \<and> auth_username ref_env (session_authId (session (request ''1'' alice_session))) store2 =
         (Inr (Some (by (review_of ''alice'' 7 (request ''1'' alice_session)))), store2)"
proof -
  let ?r = "review_of ''alice'' 7 (request ''1'' alice_session)"
  have made: "PuzzleReview puzzle1 ?r
     \<in> set (new_calls (sys_of store2)
         (snd (post_review ref_env ref_stringify 7 (request ''1'' alice_session) (sys_of store2))))"
    by (simp add: post_review_def perform_def new_calls_def Let_def ref_defs parseInt_examples)
  from review_by_resolved_username [where env = ref_env and js = ref_stringify and now = 7
      and req = "request ''1'' alice_session" and s = "sys_of store2"] made
  have "by ?r \<noteq> [] \<and>
    (\<exists>w1 w2. puzzle_get ref_env (parseInt (Some (params_id (request ''1'' alice_session))))
          (ext (sys_of store2)) = (Inr (Some puzzle1), w1)
       \<and> auth_username ref_env (session_authId (session (request ''1'' alice_session))) w1 =
         (Inr (Some (by ?r)), w2))"
    by blast
  with made show ?thesis by (simp add: ref_defs review_of_def)
qed

text \<open>
  Claim C9, as the code has it. On a request that carries a session object, the logout
  route sets the session's \<open>authId\<close> to the empty string and redirects to \<open>/\<close>. Logging
  out again, with the session that the first logout left, gives the same response and the
  same session, and no error. A \<open>GET /\<close> with that session looks up the empty authId;
  when no username resolves for it, the answer is the login page if the store has a next
  puzzle, and 404 if it has none.
\<close>

theorem logout_clears_session:
  assumes "session req = Some se"
  shows "get_logout req = (Inr \<lparr>status = 302, body = Redirect ''/''\<rparr>, Some (se\<lparr>authId := Some []\<rparr>))
    \<and> get_logout (req\<lparr>session := snd (get_logout req)\<rparr>) = get_logout req
    \<and> session_authId (snd (get_logout req)) = []
    \<and> (puzzle_next env (ext s) = (Inr (Some p), w1) \<and>
        auth_username env [] w1 = (Inr un, w2) \<and> falsy un \<longrightarrow>
        fst (get_root env js (req\<lparr>session := snd (get_logout req)\<rparr>) s) =
          Inr (send (htmlPage loginPrompt)))
    \<and> (puzzle_next env (ext s) = (Inr None, w1) \<longrightarrow>
        fst (get_root env js (req\<lparr>session := snd (get_logout req)\<rparr>) s) =
          Inr \<lparr>status = 404, body = End\<rparr>)"
proof (intro conjI impI)
  note lo = get_logout_session [OF assms]
  show "get_logout req =
      (Inr \<lparr>status = 302, body = Redirect ''/''\<rparr>, Some (se\<lparr>authId := Some []\<rparr>))"
    by (simp add: lo redirect_def)
  show "get_logout (req\<lparr>session := snd (get_logout req)\<rparr>) = get_logout req"
    by (simp add: get_logout_def assms)
  show a: "session_authId (snd (get_logout req)) = []"
    by (simp add: lo session_authId_def)
  {
    assume "puzzle_next env (ext s) = (Inr (Some p), w1) \<and>
        auth_username env [] w1 = (Inr un, w2) \<and> falsy un"
    with a show "fst (get_root env js (req\<lparr>session := snd (get_logout req)\<rparr>) s) =
          Inr (send (htmlPage loginPrompt))"
      by (simp add: get_root_render renderPuzzle_login)
  }
  {
    assume "puzzle_next env (ext s) = (Inr None, w1)"
    then show "fst (get_root env js (req\<lparr>session := snd (get_logout req)\<rparr>) s) =
          Inr \<lparr>status = 404, body = End\<rparr>"
      by (simp add: get_root_render renderPuzzle_missing status_end_def)
  }
qed

theorem logout_clears_session_witness:
  "get_logout (request ''1'' alice_session) =
     (Inr \<lparr>status = 302, body = Redirect ''/''\<rparr>, Some \<lparr>authId = Some []\<rparr>)
   \<and> get_logout ((request ''1'' alice_session)\<lparr>session := Some \<lparr>authId = Some []\<rparr>\<rparr>) =
     (Inr \<lparr>status = 302, body = Redirect ''/''\<rparr>, Some \<lparr>authId = Some []\<rparr>)
   \<and> fst (get_root ref_env ref_stringify
        ((request ''1'' alice_session)\<lparr>session := Some \<lparr>authId = Some []\<rparr>\<rparr>) (sys_of store1)) =
     Inr (send (htmlPage loginPrompt))"
  using logout_clears_session [where req = "request ''1'' alice_session"
      and se = "\<lparr>authId = Some ''k''\<rparr>" and env = ref_env and js = ref_stringify
      and s = "sys_of store1" and p = puzzle1 and ?w1.0 = store1 and un = None
      and ?w2.0 = store1]
  by (simp add: ref_defs get_logout_def)

text \<open>
  Claim C9 as stated fails in its last part: after a logout, \<open>GET /\<close> on a store without
  puzzles is answered 404, not with the login page.
\<close>

theorem logout_then_root_counterexample:
  "snd (get_logout (request ''1'' alice_session)) = Some \<lparr>authId = Some []\<rparr>
   \<and> fst (get_root ref_env ref_stringify
        ((request ''1'' alice_session)\<lparr>session := snd (get_logout (request ''1'' alice_session))\<rparr>)
        (sys_of store0)) = Inr \<lparr>status = 404, body = End\<rparr>"
  by (simp add: get_logout_def get_root_def renderPuzzle_def perform_def ref_defs status_end_def)

text \<open>
  Claim C10. When the puzzle exists, the caller is authenticated, the append resolves and
  the next-puzzle fetch then finds no puzzle, the client receives 404 although the review
  was passed to the store and the store's state is the one the append (and the fetch
  after it) produced.
\<close>

theorem review_kept_on_404:
  assumes "puzzle_get env (parseInt (Some (params_id req))) (ext s) = (Inr (Some p), w1)"
    and "auth_username env (session_authId (session req)) w1 = (Inr (Some u), w2)"
    and "u \<noteq> []"
    and "puzzle_review env p (review_of u now req) w2 = (Inr (), w3)"
    and "puzzle_next env w3 = (Inr None, w4)"
  shows "fst (post_review env js now req s) = Inr \<lparr>status = 404, body = End\<rparr>
    \<and> filter is_review (new_calls s (snd (post_review env js now req s))) =
         [PuzzleReview p (review_of u now req)]
    \<and> ext (snd (post_review env js now req s)) = w4"
  using post_review_exhausted [OF assms, of js] by (simp add: new_calls_append status_end_def)

theorem review_kept_on_404_witness:
  "fst (post_review backlog_env ref_stringify 7 (request ''1'' alice_session) (sys_of store1)) =
     Inr \<lparr>status = 404, body = End\<rparr>
   \<and> reviews (ext (snd (post_review backlog_env ref_stringify 7 (request ''1'' alice_session)
        (sys_of store1)))) =
     [(1, \<lparr>by = ''alice'', at = 7, score = Num 5, comment = Some ''ok'', rating = Num 1500\<rparr>)]"
  using review_kept_on_404 [where env = backlog_env and js = ref_stringify and now = 7
      and req = "request ''1'' alice_session" and s = "sys_of store1" and ?w1.0 = store1
      and p = puzzle1 and u = "''alice''" and ?w2.0 = store1
      and ?w3.0 = "store1\<lparr>reviews := [(1, review_of ''alice'' 7 (request ''1'' alice_session))]\<rparr>"
      and ?w4.0 = "store1\<lparr>reviews := [(1, review_of ''alice'' 7 (request ''1'' alice_session))]\<rparr>"]
  by (simp add: ref_defs parseInt_examples review_of_def)

end
